theory Spec2Isabelle
  imports Main
begin

section \<open>The outside world of the ChordCloud scripts\<close>

text \<open>
  The three scripts (\<^verbatim>\<open>app.py\<close>, \<^verbatim>\<open>app3.py\<close>, \<^verbatim>\<open>main2.py\<close>) are glue around hosted services:
  the Spotify Web API (through \<^verbatim>\<open>spotipy\<close>), the Serper search API (through \<^verbatim>\<open>requests\<close>),
  an LLM agent (LlamaIndex) and the Streamlit front end. The services are a record of
  answer functions (\<open>world\<close>); what a script does to them is the list of events it emits,
  in order; a Python exception is the \<open>Inl\<close> of the result.
\<close>

datatype error =
    RequestException string
  | SpotifyException string
  | NameError string
  | IndexError
  | ValueError string
  | PyException string

text \<open>\<^verbatim>\<open>str(e)\<close>, as the f-strings of the \<^verbatim>\<open>except\<close> blocks print it.\<close>

fun error_text :: "error \<Rightarrow> string" where
  "error_text (RequestException m) = m"
| "error_text (SpotifyException m) = m"
| "error_text (NameError n) = ''name '' @ [CHR 0x27] @ n @ [CHR 0x27] @ '' is not defined''"
| "error_text IndexError = ''list index out of range''"
| "error_text (ValueError m) = m"
| "error_text (PyException m) = m"

text \<open>\<^verbatim>\<open>except requests.exceptions.RequestException\<close> catches this class and no other.\<close>

fun is_request_exception :: "error \<Rightarrow> bool" where
  "is_request_exception (RequestException m) = True"
| "is_request_exception e = False"

text \<open>
  The two credential managers of \<^verbatim>\<open>spotipy.oauth2\<close>, with the keyword arguments the
  scripts pass: client id and secret (read from the environment, hence optional), and for
  the user-delegated flow the redirect URI and the scope.
\<close>

datatype auth_manager =
    SpotifyClientCredentials "string option" "string option"
  | SpotifyOAuth "string option" "string option" "string option" string

record track =
  name :: string
  artists :: "string list"
  track_id :: string
  uri :: string

text \<open>The four methods of the \<^verbatim>\<open>spotipy.Spotify\<close> client that the scripts call, with their arguments.\<close>

datatype spotify_request =
    Search string string nat
  | Recommendations "string list" int
  | UserPlaylistCreate string string bool
  | PlaylistAddItems string "string list"

datatype ui =
    StTitle string
  | StSubheader string
  | StWrite string
  | StError string
  | StSuccess string
  | StMarkdown string

text \<open>
  \<open>HttpGet url params headers timeout\<close> is the \<^verbatim>\<open>requests.get\<close> call; its last field is
  the \<^verbatim>\<open>timeout=\<close> keyword, \<open>None\<close> when the call passes none.
\<close>

datatype event =
    HttpGet string "(string \<times> string) list" "(string \<times> string) list" "nat option"
  | Spotify auth_manager spotify_request
  | AgentChat string
  | LoadData string
  | BuildIndex
  | Ui ui

text \<open>
  The JSON document of the search API: an optional \<^verbatim>\<open>organic\<close> array of objects, each a
  dictionary from keys to strings (an association list).
\<close>

type_synonym organic_result = "(string \<times> string) list"

record http_response =
  status_code :: nat
  reason :: string
  url :: string
  json_body :: "error + organic_result list option"

record world =
  getenv :: "string \<Rightarrow> string option"
  requests_get :: "(string \<times> string) list \<Rightarrow> error + http_response"
  spotify_search :: "auth_manager \<Rightarrow> string \<Rightarrow> string \<Rightarrow> nat \<Rightarrow> error + track list"
  spotify_recommendations :: "auth_manager \<Rightarrow> string list \<Rightarrow> int \<Rightarrow> error + track list"
  spotify_user_playlist_create :: "auth_manager \<Rightarrow> string \<Rightarrow> string \<Rightarrow> bool \<Rightarrow> error + string"
  spotify_playlist_add_items :: "auth_manager \<Rightarrow> string \<Rightarrow> string list \<Rightarrow> error + unit"
  agent_chat :: "string \<Rightarrow> error + string"
  load_data :: "string \<Rightarrow> error + string list"
  from_documents :: "string list \<Rightarrow> error + unit"
  path_exists :: "string \<Rightarrow> bool"

text \<open>A computation: the events it emitted, and its value or the exception that ended it.\<close>

type_synonym 'a io = "event list \<times> (error + 'a)"

definition io_return :: "'a \<Rightarrow> 'a io" where
  "io_return x = ([], Inr x)"

definition io_raise :: "error \<Rightarrow> 'a io" where
  "io_raise e = ([], Inl e)"

definition io_call :: "event \<Rightarrow> error + 'a \<Rightarrow> 'a io" where
  "io_call ev r = ([ev], r)"

definition io_bind :: "'a io \<Rightarrow> ('a \<Rightarrow> 'b io) \<Rightarrow> 'b io" where
  "io_bind m f =
     (case m of
        (t, Inl e) \<Rightarrow> (t, Inl e)
      | (t, Inr x) \<Rightarrow> (case f x of (t', r) \<Rightarrow> (t @ t', r)))"

text \<open>\<^verbatim>\<open>try: m  except Exception as e: h(e)\<close>, and the same for one class of exceptions.\<close>

definition io_catch :: "(error \<Rightarrow> bool) \<Rightarrow> 'a io \<Rightarrow> (error \<Rightarrow> 'a io) \<Rightarrow> 'a io" where
  "io_catch handles m h =
     (case m of
        (t, Inl e) \<Rightarrow> (if handles e then (case h e of (t', r) \<Rightarrow> (t @ t', r)) else (t, Inl e))
      | (t, Inr x) \<Rightarrow> (t, Inr x))"

definition st :: "ui \<Rightarrow> unit io" where
  "st u = io_call (Ui u) (Inr ())"

definition sp_call :: "auth_manager \<Rightarrow> spotify_request \<Rightarrow> error + 'a \<Rightarrow> 'a io" where
  "sp_call sp req r = io_call (Spotify sp req) r"

section \<open>Strings\<close>

text \<open>\<^verbatim>\<open>str(x)\<close> of a value that may be \<^verbatim>\<open>None\<close>, as an f-string formats it.\<close>

fun py_str :: "string option \<Rightarrow> string" where
  "py_str None = ''None''"
| "py_str (Some s) = s"

definition newline :: char where
  "newline = CHR 0x0A"

text \<open>\<^verbatim>\<open>sep.join(xs)\<close>.\<close>

fun join :: "string \<Rightarrow> string list \<Rightarrow> string" where
  "join sep [] = []"
| "join sep [x] = x"
| "join sep (x # y # ys) = x @ sep @ join sep (y # ys)"

text \<open>\<^verbatim>\<open>s.split(c)\<close> for a one-character separator: never the empty list.\<close>

fun split :: "char \<Rightarrow> string \<Rightarrow> string list" where
  "split c [] = [[]]"
| "split c (x # xs) =
     (if x = c then [] # split c xs
      else (case split c xs of [] \<Rightarrow> [[x]] | y # ys \<Rightarrow> (x # y) # ys))"

definition digits :: string where
  "digits = ''0123456789''"

function show_nat :: "nat \<Rightarrow> string" where
  "show_nat n = (if n < 10 then [digits ! n] else show_nat (n div 10) @ [digits ! (n mod 10)])"
  by pat_completeness auto
termination
  by (relation "measure id") auto

section \<open>\<^verbatim>\<open>create_spotify_playlist\<close> (\<^verbatim>\<open>app3.py\<close>, and word for word \<^verbatim>\<open>main2.py\<close>)\<close>

definition playlist_scope :: string where
  "playlist_scope = ''playlist-modify-private''"

text \<open>
  The client of lines 28 to 33: \<^verbatim>\<open>SpotifyOAuth(client_id=os.getenv(...), client_secret=...,
  redirect_uri=..., scope="playlist-modify-private")\<close>.
\<close>

definition user_client :: "world \<Rightarrow> auth_manager" where
  "user_client w =
     SpotifyOAuth (getenv w ''SPOTIPY_CLIENT_ID'') (getenv w ''SPOTIPY_CLIENT_SECRET'')
       (getenv w ''SPOTIPY_REDIRECT_URI'') playlist_scope"

text \<open>
  The body of the loop of lines 41 to 45 for one song: one \<^verbatim>\<open>sp.search(q=song, type="track",
  limit=1)\<close>; the \<^verbatim>\<open>uri\<close> of the first item when there is one, nothing to append otherwise.
\<close>

definition resolve_song :: "world \<Rightarrow> auth_manager \<Rightarrow> string \<Rightarrow> string option io" where
  "resolve_song w sp song =
     io_bind (sp_call sp (Search song ''track'' 1) (spotify_search w sp song ''track'' 1))
       (\<lambda>items. io_return (case items of [] \<Rightarrow> None | t # ts \<Rightarrow> Some (uri t)))"

text \<open>The loop itself, \<open>track_uris\<close> being the list built so far.\<close>

fun resolve_songs :: "world \<Rightarrow> auth_manager \<Rightarrow> string list \<Rightarrow> string list \<Rightarrow> string list io" where
  "resolve_songs w sp [] track_uris = ([], Inr track_uris)"
| "resolve_songs w sp (song # rest) track_uris =
     (case resolve_song w sp song of
        (t, Inl e) \<Rightarrow> (t, Inl e)
      | (t, Inr r) \<Rightarrow>
          (case resolve_songs w sp rest
                  (case r of None \<Rightarrow> track_uris | Some u \<Rightarrow> track_uris @ [u]) of
             (t', r') \<Rightarrow> (t @ t', r')))"

definition playlist_url :: "string \<Rightarrow> string" where
  "playlist_url playlist_id = ''https://open.spotify.com/playlist/'' @ playlist_id"

definition confirmation :: "string \<Rightarrow> string" where
  "confirmation playlist_id =
     ''Your playlist has been created! [Open Playlist]('' @ playlist_url playlist_id @ '')''"

definition create_spotify_playlist :: "world \<Rightarrow> string \<Rightarrow> string \<Rightarrow> string list \<Rightarrow> string io" where
  "create_spotify_playlist w user_id playlist_name song_list =
     (let sp = user_client w in
      io_bind (sp_call sp (UserPlaylistCreate user_id playlist_name False)
                 (spotify_user_playlist_create w sp user_id playlist_name False))
        (\<lambda>playlist_id.
           io_bind (resolve_songs w sp song_list [])
             (\<lambda>track_uris.
                io_bind
                  (if track_uris \<noteq> []
                   then sp_call sp (PlaylistAddItems playlist_id track_uris)
                          (spotify_playlist_add_items w sp playlist_id track_uris)
                   else io_return ())
                  (\<lambda>u. io_return (confirmation playlist_id)))))"

section \<open>\<^verbatim>\<open>app.py\<close>: keyword search, then recommendations\<close>

text \<open>
  The module-level client of lines 20 to 25, on app-only client credentials.
\<close>

definition spotify :: "world \<Rightarrow> auth_manager" where
  "spotify w =
     SpotifyClientCredentials (getenv w ''SPOTIPY_CLIENT_ID'') (getenv w ''SPOTIPY_CLIENT_SECRET'')"

text \<open>
  The address of line 35 is a literal with an empty \<^verbatim>\<open>q\<close> and a key in its query string;
  the model keeps the endpoint, the query string plays no part in any property below.
\<close>

definition serper_url :: string where
  "serper_url = ''https://google.serper.dev/search''"

definition serper_headers :: "world \<Rightarrow> (string \<times> string) list" where
  "serper_headers w =
     [(''Authorization'', ''Bearer '' @ py_str (getenv w ''SERPERDEV_API_KEY'')),
      (''Content-Type'', ''application/json'')]"

text \<open>
  \<^verbatim>\<open>response.raise_for_status()\<close> of the \<^verbatim>\<open>requests\<close> library: an \<^verbatim>\<open>HTTPError\<close>, which is
  a \<^verbatim>\<open>RequestException\<close>, for a status from 400 to 599.
\<close>

definition raise_for_status :: "http_response \<Rightarrow> error + unit" where
  "raise_for_status r =
     (if 400 \<le> status_code r \<and> status_code r < 500
      then Inl (RequestException
                  (show_nat (status_code r) @ '' Client Error: '' @ reason r @ '' for url: '' @ url r))
      else if 500 \<le> status_code r \<and> status_code r < 600
      then Inl (RequestException
                  (show_nat (status_code r) @ '' Server Error: '' @ reason r @ '' for url: '' @ url r))
      else Inr ())"

definition fetch_playlist_data :: "world \<Rightarrow> string \<Rightarrow> organic_result list option io" where
  "fetch_playlist_data w query =
     io_catch is_request_exception
       (io_bind
          (io_call (HttpGet serper_url [(''q'', query)] (serper_headers w) (Some 10))
             (requests_get w [(''q'', query)]))
          (\<lambda>response.
             io_bind ([], raise_for_status response)
               (\<lambda>u. ([], json_body response))))
       (\<lambda>e. io_bind (st (StError (''Error fetching data from Serper: '' @ error_text e)))
               (\<lambda>u. io_return (Some [])))"

text \<open>
  What \<^verbatim>\<open>create_playlist\<close> returns: the list of line 54, or the pair of line 52.
\<close>

datatype playlist_result =
    SongList "string list"
  | MessageAndSongs string "string list"

text \<open>\<^verbatim>\<open>search_results.get('organic', [])\<close>.\<close>

fun get_organic :: "organic_result list option \<Rightarrow> organic_result list" where
  "get_organic None = []"
| "get_organic (Some rs) = rs"

text \<open>\<^verbatim>\<open>[result['title'] for result in ... if 'title' in result]\<close>.\<close>

definition titles :: "organic_result list \<Rightarrow> string list" where
  "titles rs = List.map_filter (\<lambda>result. map_of result ''title'') rs"

definition create_playlist :: "world \<Rightarrow> string \<Rightarrow> playlist_result io" where
  "create_playlist w query =
     io_bind (fetch_playlist_data w query)
       (\<lambda>search_results.
          (let relevant_songs = titles (get_organic search_results) in
           if relevant_songs = [] then io_return (MessageAndSongs ''No songs found.'' [])
           else io_return (SongList relevant_songs)))"

text \<open>\<^verbatim>\<open>f"{track['name']} by {track['artists'][0]['name']}"\<close>; the index raises on no artist.\<close>

definition describe_track :: "track \<Rightarrow> error + string" where
  "describe_track t =
     (case artists t of [] \<Rightarrow> Inl IndexError | a # as \<Rightarrow> Inr (name t @ '' by '' @ a))"

fun describe_tracks :: "track list \<Rightarrow> error + string list" where
  "describe_tracks [] = Inr []"
| "describe_tracks (t # ts) =
     (case describe_track t of
        Inl e \<Rightarrow> Inl e
      | Inr s \<Rightarrow> (case describe_tracks ts of Inl e \<Rightarrow> Inl e | Inr ss \<Rightarrow> Inr (s # ss)))"

definition recommend_similar_songs :: "world \<Rightarrow> string \<Rightarrow> int \<Rightarrow> string list io" where
  "recommend_similar_songs w song_title num_recommendations =
     io_catch (\<lambda>e. True)
       (io_bind
          (sp_call (spotify w) (Search song_title ''track'' 1)
             (spotify_search w (spotify w) song_title ''track'' 1))
          (\<lambda>tracks.
             (case tracks of
                [] \<Rightarrow> io_return [''No similar songs found.'']
              | t # ts \<Rightarrow>
                  io_bind
                    (sp_call (spotify w) (Recommendations [track_id t] num_recommendations)
                       (spotify_recommendations w (spotify w) [track_id t] num_recommendations))
                    (\<lambda>recommendations. ([], describe_tracks recommendations)))))
       (\<lambda>e. io_bind (st (StError (''Error getting recommendations: '' @ error_text e)))
               (\<lambda>u. io_return [''Error fetching recommendations.'']))"

text \<open>Python's truth value and \<^verbatim>\<open>[0]\<close> of what \<^verbatim>\<open>create_playlist\<close> returned.\<close>

fun truthy :: "playlist_result \<Rightarrow> bool" where
  "truthy (SongList xs) = (xs \<noteq> [])"
| "truthy (MessageAndSongs m xs) = True"

fun first_item :: "playlist_result \<Rightarrow> error + string" where
  "first_item (SongList []) = Inl IndexError"
| "first_item (SongList (x # xs)) = Inr x"
| "first_item (MessageAndSongs m xs) = Inr m"

text \<open>\<^verbatim>\<open>for i, song in enumerate(similar_songs, 1): st.write(f"{i}. {song}")\<close>.\<close>

fun write_songs :: "nat \<Rightarrow> string list \<Rightarrow> event list" where
  "write_songs i [] = []"
| "write_songs i (song # songs) =
     Ui (StWrite (show_nat i @ ''. '' @ song)) # write_songs (Suc i) songs"

text \<open>
  \<^verbatim>\<open>main\<close> of \<^verbatim>\<open>app.py\<close>; the text area and the slider are its arguments. The client it
  builds last (lines 119 to 122) is never used.
\<close>

definition app_main :: "world \<Rightarrow> string \<Rightarrow> int \<Rightarrow> unit io" where
  "app_main w user_query num_recommendations =
     io_bind (st (StTitle ''ChordCloud's Personalized Playlist Recommender''))
       (\<lambda>u. if user_query \<noteq> []
            then io_bind (create_playlist w user_query)
                   (\<lambda>relevant_songs.
                      if truthy relevant_songs
                      then io_bind ([], first_item relevant_songs)
                             (\<lambda>seed.
                                io_bind (recommend_similar_songs w seed num_recommendations)
                                  (\<lambda>similar_songs.
                                     io_bind (st (StSubheader ''Recommended Songs:''))
                                       (\<lambda>u. (write_songs 1 similar_songs, Inr ()))))
                      else io_return ())
            else io_return ())"

section \<open>\<^verbatim>\<open>app3.py\<close>: the agent variant\<close>

record generator =
  gen_sp :: auth_manager

text \<open>\<^verbatim>\<open>create_index\<close>: read the documents, refuse an empty corpus, build the index.\<close>

definition create_index :: "world \<Rightarrow> string \<Rightarrow> unit io" where
  "create_index w data_path =
     io_bind (io_call (LoadData data_path) (load_data w data_path))
       (\<lambda>documents.
          if documents = [] then io_raise (ValueError ''No documents found in the specified path.'')
          else io_call BuildIndex (from_documents w documents))"

text \<open>
  \<^verbatim>\<open>__init__\<close> of \<^verbatim>\<open>app3.py\<close>: the user-delegated client, the index, the agent
  (\<^verbatim>\<open>create_agent\<close> only builds objects).
\<close>

definition app3_init :: "world \<Rightarrow> string \<Rightarrow> generator io" where
  "app3_init w data_path =
     io_bind (create_index w data_path) (\<lambda>u. io_return \<lparr>gen_sp = user_client w\<rparr>)"

definition no_recommendations :: string where
  "no_recommendations = ''No song recommendations found.''"

text \<open>The tool function registered second with the agent; \<^verbatim>\<open>self.sp\<close> is \<open>gen_sp\<close>.\<close>

definition song_recommendation_function :: "world \<Rightarrow> generator \<Rightarrow> string \<Rightarrow> string io" where
  "song_recommendation_function w self query =
     io_bind (sp_call (gen_sp self) (Search query ''track'' 5)
                (spotify_search w (gen_sp self) query ''track'' 5))
       (\<lambda>tracks.
          if tracks = [] then io_return no_recommendations
          else io_bind ([], describe_tracks tracks)
                 (\<lambda>recommendations. io_return (join [newline] recommendations)))"

text \<open>
  \<^verbatim>\<open>generate_playlist\<close>: \<^verbatim>\<open>self.agent.tools[1].fn\<close> is the tool function above, the second
  of the two tools \<^verbatim>\<open>create_agent\<close> registers.
\<close>

definition generate_playlist :: "world \<Rightarrow> generator \<Rightarrow> string \<Rightarrow> string \<Rightarrow> string io" where
  "generate_playlist w self user_query user_id =
     io_bind (io_call (AgentChat user_query) (agent_chat w user_query))
       (\<lambda>refined_query.
          io_bind (song_recommendation_function w self refined_query)
            (\<lambda>playlist_songs.
               create_spotify_playlist w user_id ''Generated Playlist''
                 (split newline playlist_songs)))"

text \<open>
  \<^verbatim>\<open>main\<close> of \<^verbatim>\<open>app3.py\<close>, the button, the text area and the text input being its arguments.
  The generator is built outside the \<^verbatim>\<open>try\<close>.
\<close>

definition app3_main :: "world \<Rightarrow> bool \<Rightarrow> string \<Rightarrow> string \<Rightarrow> unit io" where
  "app3_main w clicked user_query user_id =
     io_bind (st (StTitle ''ChordCloud's Personalized Playlist Generator''))
       (\<lambda>u. if clicked
            then (if user_query = [] \<or> user_id = []
                  then st (StError ''Please enter both a Spotify user ID and a playlist query.'')
                  else io_bind (app3_init w ''data/music_data'')
                         (\<lambda>playlist_generator.
                            io_catch (\<lambda>e. True)
                              (io_bind (generate_playlist w playlist_generator user_query user_id)
                                 (\<lambda>playlist_url.
                                    io_bind
                                      (st (StSuccess ''Your personalized playlist has been generated!''))
                                      (\<lambda>u. st (StMarkdown playlist_url))))
                              (\<lambda>e. st (StError (''Error: '' @ error_text e)))))
            else io_return ())"

section \<open>\<^verbatim>\<open>main2.py\<close>\<close>

text \<open>
  The names bound at module level in \<^verbatim>\<open>main2.py\<close>: its imports (lines 1 to 11) and its
  two definitions. None of them is a Python builtin, and no builtin has one of the names
  looked up below.
\<close>

definition main2_names :: "string list" where
  "main2_names =
     [''os'', ''spotipy'', ''SpotifyOAuth'', ''load_dotenv'', ''List'',
      ''SimpleDirectoryReader'', ''VectorStoreIndex'', ''ToolMetadata'', ''Groq'',
      ''JinaEmbedding'', ''ReActAgent'', ''QueryEngineTool'', ''FunctionTool'',
      ''ChatMemoryBuffer'', ''create_spotify_playlist'', ''PlaylistGeneratorWithLlamaIndex'']"

definition lookup_name :: "string list \<Rightarrow> string \<Rightarrow> unit io" where
  "lookup_name names n = (if n \<in> set names then io_return () else io_raise (NameError n))"

text \<open>
  \<^verbatim>\<open>load_index\<close> (lines 77 to 80): \<^verbatim>\<open>StorageContext\<close> is looked up first, then
  \<^verbatim>\<open>load_index_from_storage\<close>.
\<close>

definition load_index :: "world \<Rightarrow> string \<Rightarrow> unit io" where
  "load_index w index_path =
     io_bind (lookup_name main2_names ''StorageContext'')
       (\<lambda>u. lookup_name main2_names ''load_index_from_storage'')"

definition load_or_create_index :: "world \<Rightarrow> string \<Rightarrow> string \<Rightarrow> unit io" where
  "load_or_create_index w data_path index_path =
     (if path_exists w index_path then load_index w index_path else create_index w data_path)"

text \<open>
  \<^verbatim>\<open>__init__\<close> of \<^verbatim>\<open>main2.py\<close>. In line 59 Python evaluates the callee
  \<^verbatim>\<open>SpotifyClientCredentials\<close> before its arguments and before \<^verbatim>\<open>spotipy.Spotify\<close> is called.
\<close>

definition main2_init :: "world \<Rightarrow> string \<Rightarrow> string \<Rightarrow> generator io" where
  "main2_init w data_path index_path =
     io_bind (lookup_name main2_names ''SpotifyClientCredentials'')
       (\<lambda>u. io_bind (load_or_create_index w data_path index_path)
              (\<lambda>u. io_return
                     \<lparr>gen_sp = SpotifyClientCredentials (getenv w ''SPOTIPY_CLIENT_ID'')
                                 (getenv w ''SPOTIPY_CLIENT_SECRET'')\<rparr>))"

text \<open>The script under \<^verbatim>\<open>if __name__ == "__main__"\<close>; \<^verbatim>\<open>index_path\<close> defaults to \<^verbatim>\<open>"index"\<close>.\<close>

definition main2_script :: "world \<Rightarrow> string io" where
  "main2_script w =
     io_bind (main2_init w ''./your_music_data'' ''index'')
       (\<lambda>playlist_generator.
          generate_playlist w playlist_generator
            ''Create a playlist for a relaxing afternoon'' ''your_spotify_user_id'')"

section \<open>Reading a run\<close>

text \<open>
  What the properties below say about a run is said with these readings of the world and
  of the emitted events; none of them is part of the scripts.
\<close>

text \<open>
  The track a song name resolves to: the \<^verbatim>\<open>uri\<close> of the first item the catalog answers to
  the search of line 42, if it answers one.
\<close>

definition top_hit :: "world \<Rightarrow> auth_manager \<Rightarrow> string \<Rightarrow> string option" where
  "top_hit w sp song =
     (case spotify_search w sp song ''track'' 1 of
        Inl e \<Rightarrow> None
      | Inr items \<Rightarrow> (case items of [] \<Rightarrow> None | t # ts \<Rightarrow> Some (uri t)))"

text \<open>The resolved candidates, in the order of the song list, repetitions kept.\<close>

definition resolved :: "world \<Rightarrow> auth_manager \<Rightarrow> string list \<Rightarrow> string list" where
  "resolved w sp songs = List.map_filter (top_hit w sp) songs"

text \<open>No search of the loop raises.\<close>

definition searches_answer :: "world \<Rightarrow> auth_manager \<Rightarrow> string list \<Rightarrow> bool" where
  "searches_answer w sp songs =
     list_all (\<lambda>song. \<not> isl (spotify_search w sp song ''track'' 1)) songs"

text \<open>The append calls of a run: playlist and tracks of each, in order.\<close>

fun add_calls :: "event list \<Rightarrow> (string \<times> string list) list" where
  "add_calls [] = []"
| "add_calls (Spotify a (PlaylistAddItems p us) # evs) = (p, us) # add_calls evs"
| "add_calls (ev # evs) = add_calls evs"

text \<open>The playlists a run asked the service to create: owner, name and public flag.\<close>

fun create_calls :: "event list \<Rightarrow> (string \<times> string \<times> bool) list" where
  "create_calls [] = []"
| "create_calls (Spotify a (UserPlaylistCreate u n p) # evs) = (u, n, p) # create_calls evs"
| "create_calls (ev # evs) = create_calls evs"

definition all_events :: "(event \<Rightarrow> bool) \<Rightarrow> 'a io \<Rightarrow> bool" where
  "all_events P m = list_all P (fst m)"

text \<open>User-delegated credentials with the scope that allows changing private playlists.\<close>

fun is_user_delegated :: "auth_manager \<Rightarrow> bool" where
  "is_user_delegated (SpotifyOAuth client_id client_secret redirect_uri scope) =
     (scope = ''playlist-modify-private'')"
| "is_user_delegated (SpotifyClientCredentials client_id client_secret) = False"

text \<open>
  An event that creates a playlist creates it private, for this owner, under this name and
  on user-delegated credentials; an event that appends does so on user-delegated
  credentials; any other event passes.
\<close>

fun private_playlist_event :: "string \<Rightarrow> string \<Rightarrow> event \<Rightarrow> bool" where
  "private_playlist_event owner pname (Spotify a (UserPlaylistCreate u n p)) =
     (is_user_delegated a \<and> u = owner \<and> n = pname \<and> \<not> p)"
| "private_playlist_event owner pname (Spotify a (PlaylistAddItems pid us)) = is_user_delegated a"
| "private_playlist_event owner pname ev = True"

text \<open>The \<^verbatim>\<open>timeout=\<close> an outbound call was given, if any.\<close>

fun timeout_of :: "event \<Rightarrow> nat option" where
  "timeout_of (HttpGet u ps hs t) = t"
| "timeout_of ev = None"

text \<open>
  Reading the playlist identifier back from a reported link and from the confirmation
  message: what is left of the text once the fixed parts around the identifier are removed.
\<close>

definition strip_prefix :: "string \<Rightarrow> string \<Rightarrow> string option" where
  "strip_prefix p s = (if take (length p) s = p then Some (drop (length p) s) else None)"

definition strip_suffix :: "string \<Rightarrow> string \<Rightarrow> string option" where
  "strip_suffix p s =
     (if drop (length s - length p) s = p \<and> length p \<le> length s
      then Some (take (length s - length p) s) else None)"

definition parse_playlist_url :: "string \<Rightarrow> string option" where
  "parse_playlist_url u = strip_prefix ''https://open.spotify.com/playlist/'' u"

definition reported_url :: "string \<Rightarrow> string option" where
  "reported_url msg =
     (case strip_prefix ''Your playlist has been created! [Open Playlist]('' msg of
        None \<Rightarrow> None
      | Some rest \<Rightarrow> strip_suffix '')'' rest)"

subsection \<open>A world to run the scripts in\<close>

definition example_track :: "string \<Rightarrow> track" where
  "example_track q =
     \<lparr>name = q, artists = [''Coldplay''], track_id = ''id-'' @ q, uri = ''spotify:track:'' @ q\<rparr>"

text \<open>
  The search API answers 500; the catalog knows every title but \<^verbatim>\<open>unknown\<close>; the
  recommender and the agent have nothing to add.
\<close>

definition example_world :: world where
  "example_world =
     \<lparr>getenv = (\<lambda>k. None),
      requests_get = (\<lambda>params. Inr \<lparr>status_code = 500, reason = ''Internal Server Error'',
                                    url = serper_url, json_body = Inr None\<rparr>),
      spotify_search = (\<lambda>a q ty n. if q = ''unknown'' then Inr [] else Inr [example_track q]),
      spotify_recommendations = (\<lambda>a seeds n. Inr []),
      spotify_user_playlist_create = (\<lambda>a u n p. Inr ''p1''),
      spotify_playlist_add_items = (\<lambda>a p us. Inr ()),
      agent_chat = (\<lambda>q. Inr ''unknown''),
      load_data = (\<lambda>p. Inr [''notes'']),
      from_documents = (\<lambda>ds. Inr ()),
      path_exists = (\<lambda>p. False)\<rparr>"

section \<open>Properties\<close>

subsection \<open>Events of a composed computation\<close>

lemma all_events_return: "all_events P (io_return x)"
  by (simp add: all_events_def io_return_def)

lemma all_events_raise: "all_events P (io_raise e)"
  by (simp add: all_events_def io_raise_def)

lemma all_events_pure: "all_events P ([], r)"
  by (simp add: all_events_def)

lemma all_events_call: "P ev \<Longrightarrow> all_events P (io_call ev r)"
  by (simp add: all_events_def io_call_def)

lemma all_events_bind:
  "all_events P m \<Longrightarrow> (\<And>x. all_events P (f x)) \<Longrightarrow> all_events P (io_bind m f)"
  by (auto simp: all_events_def io_bind_def split: prod.splits sum.splits)
     (metis fst_conv)

lemma all_events_catch:
  "all_events P m \<Longrightarrow> (\<And>e. all_events P (h e)) \<Longrightarrow> all_events P (io_catch c m h)"
  by (auto simp: all_events_def io_catch_def split: prod.splits sum.splits)
     (metis fst_conv)

subsection \<open>The resolution loop\<close>

lemma resolve_song_answer:
  "spotify_search w sp song ''track'' 1 = Inr items \<Longrightarrow>
   resolve_song w sp song = ([Spotify sp (Search song ''track'' 1)], Inr (top_hit w sp song))"
  by (simp add: resolve_song_def io_bind_def sp_call_def io_call_def io_return_def top_hit_def)

lemma resolve_song_raise:
  "spotify_search w sp song ''track'' 1 = Inl e \<Longrightarrow>
   resolve_song w sp song = ([Spotify sp (Search song ''track'' 1)], Inl e)"
  by (simp add: resolve_song_def io_bind_def sp_call_def io_call_def)

lemma resolve_songs_answer:
  "searches_answer w sp songs \<Longrightarrow>
   resolve_songs w sp songs acc =
     (map (\<lambda>song. Spotify sp (Search song ''track'' 1)) songs, Inr (acc @ resolved w sp songs))"
proof (induction songs arbitrary: acc)
  case Nil
  show ?case by (simp add: resolved_def)
next
  case (Cons song rest)
  from Cons.prems obtain items where a: "spotify_search w sp song ''track'' 1 = Inr items"
    and r: "searches_answer w sp rest"
    by (cases "spotify_search w sp song ''track'' 1") (auto simp: searches_answer_def)
  show ?case
    using Cons.IH [OF r] resolve_song_answer [OF a]
    by (cases "top_hit w sp song") (simp_all add: resolved_def)
qed

lemma all_events_resolve_songs:
  "(\<And>song. P (Spotify sp (Search song ''track'' 1))) \<Longrightarrow>
   all_events P (resolve_songs w sp songs acc)"
proof (induction songs arbitrary: acc)
  case Nil
  show ?case by (simp add: all_events_def)
next
  case (Cons song rest)
  show ?case
  proof (cases "spotify_search w sp song ''track'' 1")
    case (Inl e)
    then show ?thesis using Cons.prems by (simp add: resolve_song_raise all_events_def)
  next
    case (Inr items)
    obtain t' r' where eq:
      "resolve_songs w sp rest
         (case top_hit w sp song of None \<Rightarrow> acc | Some u \<Rightarrow> acc @ [u]) = (t', r')"
      by fastforce
    have "all_events P (t', r')"
      using Cons.IH Cons.prems unfolding eq [symmetric] by blast
    then show ?thesis using Cons.prems resolve_song_answer [OF Inr] eq
      by (simp add: all_events_def)
  qed
qed

lemma add_calls_append: "add_calls (xs @ ys) = add_calls xs @ add_calls ys"
  by (induction xs rule: add_calls.induct) simp_all

lemma add_calls_searches: "add_calls (map (\<lambda>song. Spotify sp (Search song ty n)) songs) = []"
  by (induction songs) simp_all

lemma length_resolved:
  "length (resolved w sp songs) = length (filter (\<lambda>song. top_hit w sp song \<noteq> None) songs)"
  by (induction songs) (simp_all add: resolved_def split: option.splits)

lemma resolved_in_order:
  "resolved w sp songs =
     map (\<lambda>song. the (top_hit w sp song)) (filter (\<lambda>song. top_hit w sp song \<noteq> None) songs)"
  by (induction songs) (auto simp: resolved_def split: option.splits)

text \<open>
  The whole run of \<^verbatim>\<open>create_spotify_playlist\<close> when the playlist is created and no search
  raises: the creation, one search per song, and the append call exactly when a song resolved.
\<close>

lemma create_spotify_playlist_run:
  assumes "spotify_user_playlist_create w (user_client w) user_id playlist_name False
             = Inr playlist_id"
    and "searches_answer w (user_client w) song_list"
  shows "create_spotify_playlist w user_id playlist_name song_list =
     (if resolved w (user_client w) song_list = []
      then (Spotify (user_client w) (UserPlaylistCreate user_id playlist_name False)
              # map (\<lambda>song. Spotify (user_client w) (Search song ''track'' 1)) song_list,
            Inr (confirmation playlist_id))
      else (Spotify (user_client w) (UserPlaylistCreate user_id playlist_name False)
              # map (\<lambda>song. Spotify (user_client w) (Search song ''track'' 1)) song_list
              @ [Spotify (user_client w)
                   (PlaylistAddItems playlist_id (resolved w (user_client w) song_list))],
            case spotify_playlist_add_items w (user_client w) playlist_id
                   (resolved w (user_client w) song_list) of
              Inl e \<Rightarrow> Inl e
            | Inr u \<Rightarrow> Inr (confirmation playlist_id)))"
  using assms(1) resolve_songs_answer [OF assms(2), of "[]"]
  by (simp add: create_spotify_playlist_def Let_def io_bind_def sp_call_def io_call_def
        io_return_def split: sum.splits)

subsection \<open>The playlist that is materialized\<close>

text \<open>
  Claim C2. When the playlist is created, no search raises and at least one candidate
  resolves, the run makes exactly one append call, to the created playlist, and its track
  list is the resolved candidates: as many as there are candidates that resolve, in the
  order of the candidate list, a track that several candidates resolve to being repeated.
\<close>

theorem C2_playlist_tracks_in_resolution_order:
  assumes "spotify_user_playlist_create w (user_client w) user_id playlist_name False
             = Inr playlist_id"
    and "searches_answer w (user_client w) song_list"
    and "resolved w (user_client w) song_list \<noteq> []"
  shows "add_calls (fst (create_spotify_playlist w user_id playlist_name song_list))
           = [(playlist_id, resolved w (user_client w) song_list)]
         \<and> length (resolved w (user_client w) song_list)
           = length (filter (\<lambda>song. top_hit w (user_client w) song \<noteq> None) song_list)
         \<and> resolved w (user_client w) song_list
           = map (\<lambda>song. the (top_hit w (user_client w) song))
               (filter (\<lambda>song. top_hit w (user_client w) song \<noteq> None) song_list)"
proof -
  have "add_calls (fst (create_spotify_playlist w user_id playlist_name song_list))
          = [(playlist_id, resolved w (user_client w) song_list)]"
    using assms(3)
    by (simp add: create_spotify_playlist_run [OF assms(1) assms(2)] add_calls_append
          add_calls_searches)
  then show ?thesis
    using length_resolved resolved_in_order by blast
qed

text \<open>Two of three candidates resolve, both to the same track: it is appended twice.\<close>

theorem C2_witness:
  "add_calls (fst (create_spotify_playlist example_world ''alice'' ''Mix''
                     [''Yellow'', ''unknown'', ''Yellow'']))
     = [(''p1'', [''spotify:track:Yellow'', ''spotify:track:Yellow''])]
   \<and> resolved example_world (user_client example_world) [''Yellow'', ''unknown'', ''Yellow'']
     = [''spotify:track:Yellow'', ''spotify:track:Yellow'']"
proof -
  have r: "resolved example_world (user_client example_world) [''Yellow'', ''unknown'', ''Yellow'']
     = [''spotify:track:Yellow'', ''spotify:track:Yellow'']"
    by (simp add: resolved_def top_hit_def example_world_def example_track_def)
  have c: "spotify_user_playlist_create example_world (user_client example_world) ''alice'' ''Mix'' False
             = Inr ''p1''"
    by (simp add: example_world_def)
  have s: "searches_answer example_world (user_client example_world) [''Yellow'', ''unknown'', ''Yellow'']"
    by (simp add: searches_answer_def example_world_def)
  have n: "resolved example_world (user_client example_world) [''Yellow'', ''unknown'', ''Yellow''] \<noteq> []"
    by (simp add: r)
  show ?thesis
    using C2_playlist_tracks_in_resolution_order [OF c s n] r by simp
qed

text \<open>
  Claim C3. When the playlist is created and no search raises, the append call is made
  exactly when some candidate resolves; and when every search answers an empty result list,
  the run is the creation followed by the searches, with no append call, and returns the
  confirmation rather than an exception.
\<close>

theorem C3_all_unresolved_still_succeeds:
  assumes "spotify_user_playlist_create w (user_client w) user_id playlist_name False
             = Inr playlist_id"
    and "searches_answer w (user_client w) song_list"
  shows "(add_calls (fst (create_spotify_playlist w user_id playlist_name song_list)) \<noteq> []
            \<longleftrightarrow> resolved w (user_client w) song_list \<noteq> [])
         \<and> ((\<forall>song \<in> set song_list. spotify_search w (user_client w) song ''track'' 1 = Inr [])
            \<longrightarrow> create_spotify_playlist w user_id playlist_name song_list
                  = (Spotify (user_client w) (UserPlaylistCreate user_id playlist_name False)
                       # map (\<lambda>song. Spotify (user_client w) (Search song ''track'' 1)) song_list,
                     Inr (confirmation playlist_id)))"
proof -
  have none: "resolved w (user_client w) song_list = []"
    if "\<forall>song \<in> set song_list. spotify_search w (user_client w) song ''track'' 1 = Inr []"
    using that by (induction song_list) (simp_all add: resolved_def top_hit_def)
  show ?thesis
    using none
    by (auto simp: create_spotify_playlist_run [OF assms] add_calls_append add_calls_searches)
qed

text \<open>Two candidates the catalog does not know.\<close>

theorem C3_witness:
  "create_spotify_playlist example_world ''alice'' ''Mix'' [''unknown'', ''unknown'']
     = ([Spotify (user_client example_world) (UserPlaylistCreate ''alice'' ''Mix'' False),
         Spotify (user_client example_world) (Search ''unknown'' ''track'' 1),
         Spotify (user_client example_world) (Search ''unknown'' ''track'' 1)],
        Inr (confirmation ''p1''))
   \<and> resolved example_world (user_client example_world) [''unknown'', ''unknown''] = []"
proof -
  have c: "spotify_user_playlist_create example_world (user_client example_world) ''alice'' ''Mix'' False
             = Inr ''p1''"
    by (simp add: example_world_def)
  have s: "searches_answer example_world (user_client example_world) [''unknown'', ''unknown'']"
    by (simp add: searches_answer_def example_world_def)
  have e: "\<forall>song \<in> set [''unknown'', ''unknown''].
             spotify_search example_world (user_client example_world) song ''track'' 1 = Inr []"
    by (simp add: example_world_def)
  have r: "resolved example_world (user_client example_world) [''unknown'', ''unknown''] = []"
    by (simp add: resolved_def top_hit_def example_world_def)
  show ?thesis
    using C3_all_unresolved_still_succeeds [OF c s] e r by simp
qed

subsection \<open>Resolving one candidate\<close>

lemma recommend_similar_songs_unresolved:
  "spotify_search w (spotify w) song_title ''track'' 1 = Inr [] \<Longrightarrow>
   recommend_similar_songs w song_title n =
     ([Spotify (spotify w) (Search song_title ''track'' 1)], Inr [''No similar songs found.''])"
  by (simp add: recommend_similar_songs_def io_catch_def io_bind_def sp_call_def io_call_def
        io_return_def)

lemma recommend_similar_songs_seed:
  "spotify_search w (spotify w) song_title ''track'' 1 = Inr (t # ts) \<Longrightarrow>
   take 2 (fst (recommend_similar_songs w song_title n)) =
     [Spotify (spotify w) (Search song_title ''track'' 1),
      Spotify (spotify w) (Recommendations [track_id t] n)]"
  by (simp add: recommend_similar_songs_def io_catch_def io_bind_def sp_call_def io_call_def
        io_return_def st_def split: sum.splits prod.splits)

text \<open>
  Claim C4. Resolving one candidate (the body of the loop of \<^verbatim>\<open>create_spotify_playlist\<close>)
  makes exactly one call, a search of type \<^verbatim>\<open>track\<close> with limit 1; it yields the identifier
  of the first item when the result list is not empty, and nothing, without raising, when
  it is empty, in which case the loop goes on with the next candidate and the same tracks.
  The seed of \<^verbatim>\<open>recommend_similar_songs\<close> is resolved by the same one search: the \<^verbatim>\<open>id\<close> of
  the first item seeds the recommender, and an empty result list ends the function with its
  one-entry answer, without raising.
\<close>

theorem C4_track_resolver:
  "fst (resolve_song w sp song) = [Spotify sp (Search song ''track'' 1)]
   \<and> (\<forall>t ts. spotify_search w sp song ''track'' 1 = Inr (t # ts)
        \<longrightarrow> snd (resolve_song w sp song) = Inr (Some (uri t)))
   \<and> (spotify_search w sp song ''track'' 1 = Inr []
        \<longrightarrow> snd (resolve_song w sp song) = Inr None
          \<and> resolve_songs w sp (song # rest) track_uris =
              (case resolve_songs w sp rest track_uris of
                 (t', r') \<Rightarrow> (Spotify sp (Search song ''track'' 1) # t', r')))
   \<and> (\<forall>t ts. spotify_search w (spotify w) song ''track'' 1 = Inr (t # ts)
        \<longrightarrow> take 2 (fst (recommend_similar_songs w song n)) =
              [Spotify (spotify w) (Search song ''track'' 1),
               Spotify (spotify w) (Recommendations [track_id t] n)])
   \<and> (spotify_search w (spotify w) song ''track'' 1 = Inr []
        \<longrightarrow> recommend_similar_songs w song n =
              ([Spotify (spotify w) (Search song ''track'' 1)], Inr [''No similar songs found.'']))"
proof -
  have one: "fst (resolve_song w sp song) = [Spotify sp (Search song ''track'' 1)]"
    by (cases "spotify_search w sp song ''track'' 1")
       (simp_all add: resolve_song_raise resolve_song_answer)
  have hit: "snd (resolve_song w sp song) = Inr (Some (uri t))"
    if "spotify_search w sp song ''track'' 1 = Inr (t # ts)" for t ts
    using that by (simp add: resolve_song_answer [OF that] top_hit_def)
  have miss: "snd (resolve_song w sp song) = Inr None
      \<and> resolve_songs w sp (song # rest) track_uris =
          (case resolve_songs w sp rest track_uris of
             (t', r') \<Rightarrow> (Spotify sp (Search song ''track'' 1) # t', r'))"
    if "spotify_search w sp song ''track'' 1 = Inr []"
    using that by (simp add: resolve_song_answer [OF that] top_hit_def)
  show ?thesis
    using one hit miss recommend_similar_songs_seed recommend_similar_songs_unresolved
    by blast
qed

text \<open>A title the catalog knows, one it does not, and the loop over both.\<close>

theorem C4_witness:
  "resolve_song example_world (user_client example_world) ''Yellow''
     = ([Spotify (user_client example_world) (Search ''Yellow'' ''track'' 1)],
        Inr (Some ''spotify:track:Yellow''))
   \<and> resolve_song example_world (user_client example_world) ''unknown''
     = ([Spotify (user_client example_world) (Search ''unknown'' ''track'' 1)], Inr None)
   \<and> resolve_songs example_world (user_client example_world) [''unknown'', ''Yellow''] []
     = ([Spotify (user_client example_world) (Search ''unknown'' ''track'' 1),
         Spotify (user_client example_world) (Search ''Yellow'' ''track'' 1)],
        Inr [''spotify:track:Yellow''])"
proof -
  have y: "spotify_search example_world (user_client example_world) ''Yellow'' ''track'' 1
             = Inr (example_track ''Yellow'' # [])"
    by (simp add: example_world_def)
  have u: "spotify_search example_world (user_client example_world) ''unknown'' ''track'' 1
             = Inr []"
    by (simp add: example_world_def)
  have a: "resolve_song example_world (user_client example_world) ''Yellow''
     = ([Spotify (user_client example_world) (Search ''Yellow'' ''track'' 1)],
        Inr (Some ''spotify:track:Yellow''))"
    using C4_track_resolver [of example_world "user_client example_world" "''Yellow''"] y
    by (simp add: prod_eq_iff example_track_def)
  have b: "resolve_song example_world (user_client example_world) ''unknown''
     = ([Spotify (user_client example_world) (Search ''unknown'' ''track'' 1)], Inr None)"
    using C4_track_resolver [of example_world "user_client example_world" "''unknown''"] u
    by (simp add: prod_eq_iff)
  have c: "resolve_songs example_world (user_client example_world) [''unknown'', ''Yellow''] []
     = (case resolve_songs example_world (user_client example_world) [''Yellow''] [] of
          (t', r') \<Rightarrow> (Spotify (user_client example_world) (Search ''unknown'' ''track'' 1) # t', r'))"
    using C4_track_resolver [of example_world "user_client example_world" "''unknown''"
        "[''Yellow'']" "[]"] u
    by simp
  show ?thesis
    using a b c by simp
qed

subsection \<open>Events of the materializer and of the agent variant\<close>

lemma all_events_create_spotify_playlist:
  assumes "\<And>song. P (Spotify (user_client w) (Search song ''track'' 1))"
    and "P (Spotify (user_client w) (UserPlaylistCreate user_id playlist_name False))"
    and "\<And>pid us. P (Spotify (user_client w) (PlaylistAddItems pid us))"
  shows "all_events P (create_spotify_playlist w user_id playlist_name song_list)"
  unfolding create_spotify_playlist_def Let_def sp_call_def
  by (intro all_events_bind all_events_call all_events_resolve_songs all_events_return assms)
     (simp add: all_events_call all_events_return assms)

lemma all_events_song_recommendation_function:
  assumes "\<And>q. P (Spotify (gen_sp self) (Search q ''track'' 5))"
  shows "all_events P (song_recommendation_function w self query)"
  unfolding song_recommendation_function_def sp_call_def
  by (intro all_events_bind all_events_call assms)
     (simp add: all_events_return all_events_bind all_events_pure)

lemma all_events_generate_playlist:
  assumes "\<And>q. P (AgentChat q)"
    and "\<And>q. P (Spotify (gen_sp self) (Search q ''track'' 5))"
    and "\<And>song. P (Spotify (user_client w) (Search song ''track'' 1))"
    and "P (Spotify (user_client w) (UserPlaylistCreate user_id ''Generated Playlist'' False))"
    and "\<And>pid us. P (Spotify (user_client w) (PlaylistAddItems pid us))"
  shows "all_events P (generate_playlist w self user_query user_id)"
  unfolding generate_playlist_def
  by (intro all_events_bind all_events_call all_events_song_recommendation_function
        all_events_create_spotify_playlist assms)

lemma create_calls_searches:
  "create_calls (map (\<lambda>song. Spotify sp (Search song ty n)) songs) = []"
  by (induction songs) simp_all

lemma create_calls_resolve_songs: "create_calls (fst (resolve_songs w sp songs acc)) = []"
proof (induction songs arbitrary: acc)
  case Nil
  show ?case by simp
next
  case (Cons song rest)
  show ?case
  proof (cases "spotify_search w sp song ''track'' 1")
    case (Inl e)
    then show ?thesis by (simp add: resolve_song_raise)
  next
    case (Inr items)
    obtain t' r' where eq:
      "resolve_songs w sp rest
         (case top_hit w sp song of None \<Rightarrow> acc | Some u \<Rightarrow> acc @ [u]) = (t', r')"
      by fastforce
    have "create_calls t' = []"
      using Cons.IH [of "case top_hit w sp song of None \<Rightarrow> acc | Some u \<Rightarrow> acc @ [u]"]
      by (simp add: eq)
    then show ?thesis using resolve_song_answer [OF Inr] eq
      by simp
  qed
qed

lemma create_calls_append: "create_calls (xs @ ys) = create_calls xs @ create_calls ys"
  by (induction xs rule: create_calls.induct) simp_all

lemma create_calls_create_spotify_playlist:
  "create_calls (fst (create_spotify_playlist w user_id playlist_name song_list))
     = [(user_id, playlist_name, False)]"
  using create_calls_resolve_songs [of w "user_client w" song_list "[]"]
  by (auto simp: create_spotify_playlist_def Let_def io_bind_def sp_call_def io_call_def
        io_return_def create_calls_append split: sum.splits prod.splits)

text \<open>
  Claim C7. The client of \<^verbatim>\<open>create_spotify_playlist\<close> is user-delegated, with the scope
  \<^verbatim>\<open>playlist-modify-private\<close>; a run asks for exactly one playlist, owned by the given user,
  under the given name and not public; and every creation and every append call of
  \<^verbatim>\<open>create_spotify_playlist\<close>, and of \<^verbatim>\<open>generate_playlist\<close> whatever client the generator
  holds, is made on that user-delegated client.
\<close>

theorem C7_private_playlist_on_user_credentials:
  "is_user_delegated (user_client w)
   \<and> create_calls (fst (create_spotify_playlist w user_id playlist_name song_list))
       = [(user_id, playlist_name, False)]
   \<and> all_events (private_playlist_event user_id playlist_name)
       (create_spotify_playlist w user_id playlist_name song_list)
   \<and> all_events (private_playlist_event user_id ''Generated Playlist'')
       (generate_playlist w self user_query user_id)"
proof -
  have u: "is_user_delegated (user_client w)"
    by (simp add: user_client_def playlist_scope_def)
  have m: "all_events (private_playlist_event user_id playlist_name)
       (create_spotify_playlist w user_id playlist_name song_list)"
    by (rule all_events_create_spotify_playlist) (simp_all add: u)
  have g: "all_events (private_playlist_event user_id ''Generated Playlist'')
       (generate_playlist w self user_query user_id)"
    by (rule all_events_generate_playlist) (simp_all add: u)
  show ?thesis
    using u m g create_calls_create_spotify_playlist by blast
qed

text \<open>The three calls of a run with one known title.\<close>

theorem C7_witness:
  "create_spotify_playlist example_world ''alice'' ''Mix'' [''Yellow'']
     = ([Spotify (SpotifyOAuth None None None ''playlist-modify-private'')
           (UserPlaylistCreate ''alice'' ''Mix'' False),
         Spotify (SpotifyOAuth None None None ''playlist-modify-private'')
           (Search ''Yellow'' ''track'' 1),
         Spotify (SpotifyOAuth None None None ''playlist-modify-private'')
           (PlaylistAddItems ''p1'' [''spotify:track:Yellow''])],
        Inr (confirmation ''p1''))
   \<and> all_events (private_playlist_event ''alice'' ''Mix'')
       (create_spotify_playlist example_world ''alice'' ''Mix'' [''Yellow''])"
proof -
  have "create_spotify_playlist example_world ''alice'' ''Mix'' [''Yellow'']
     = ([Spotify (SpotifyOAuth None None None ''playlist-modify-private'')
           (UserPlaylistCreate ''alice'' ''Mix'' False),
         Spotify (SpotifyOAuth None None None ''playlist-modify-private'')
           (Search ''Yellow'' ''track'' 1),
         Spotify (SpotifyOAuth None None None ''playlist-modify-private'')
           (PlaylistAddItems ''p1'' [''spotify:track:Yellow''])],
        Inr (confirmation ''p1''))"
    by (simp add: create_spotify_playlist_def Let_def io_bind_def sp_call_def io_call_def
          io_return_def resolve_song_def user_client_def playlist_scope_def example_world_def
          example_track_def)
  then show ?thesis
    using C7_private_playlist_on_user_credentials [of example_world "''alice''" "''Mix''" "[''Yellow'']"]
    by simp
qed

subsection \<open>The reported link\<close>

text \<open>
  Whenever \<^verbatim>\<open>create_spotify_playlist\<close> returns, the creation call had returned an identifier
  and the message is the confirmation built from that identifier.
\<close>

lemma create_spotify_playlist_returns_confirmation:
  assumes "snd (create_spotify_playlist w user_id playlist_name song_list) = Inr msg"
  shows "\<exists>playlist_id.
           spotify_user_playlist_create w (user_client w) user_id playlist_name False
             = Inr playlist_id
           \<and> msg = confirmation playlist_id"
proof (cases "spotify_user_playlist_create w (user_client w) user_id playlist_name False")
  case (Inl e)
  then show ?thesis using assms
    by (simp add: create_spotify_playlist_def Let_def io_bind_def sp_call_def io_call_def)
next
  case (Inr playlist_id)
  obtain t r where eq: "resolve_songs w (user_client w) song_list [] = (t, r)"
    by fastforce
  have "msg = confirmation playlist_id"
    using assms Inr eq
    by (cases r)
       (auto simp: create_spotify_playlist_def Let_def io_bind_def sp_call_def io_call_def
          io_return_def split: sum.splits if_splits)
  then show ?thesis using Inr by simp
qed

text \<open>
  Claim C8. Whenever \<^verbatim>\<open>create_spotify_playlist\<close> returns a message, the creation call of that
  run returned a playlist identifier, the message is the fixed text around the link built
  from that identifier, and reading the link from the message and the identifier from the
  link gives back exactly the identifier the creation call returned.
\<close>

theorem C8_playlist_url_round_trip:
  assumes "snd (create_spotify_playlist w user_id playlist_name song_list) = Inr msg"
  shows "\<exists>playlist_id.
           spotify_user_playlist_create w (user_client w) user_id playlist_name False
             = Inr playlist_id
           \<and> msg = ''Your playlist has been created! [Open Playlist]('' @
                    playlist_url playlist_id @ '')''
           \<and> reported_url msg = Some (playlist_url playlist_id)
           \<and> parse_playlist_url (playlist_url playlist_id) = Some playlist_id"
proof -
  obtain playlist_id where
    c: "spotify_user_playlist_create w (user_client w) user_id playlist_name False
          = Inr playlist_id"
    and m: "msg = confirmation playlist_id"
    using create_spotify_playlist_returns_confirmation [OF assms] by blast
  have "reported_url (confirmation playlist_id) = Some (playlist_url playlist_id)"
    by (simp add: confirmation_def reported_url_def strip_prefix_def strip_suffix_def)
  moreover have "parse_playlist_url (playlist_url playlist_id) = Some playlist_id"
    by (simp add: parse_playlist_url_def playlist_url_def strip_prefix_def)
  ultimately show ?thesis
    using c m by (auto simp: confirmation_def)
qed

text \<open>A run that creates the playlist \<^verbatim>\<open>p1\<close>: the message, its link and the identifier read back.\<close>

theorem C8_witness:
  "snd (create_spotify_playlist example_world ''alice'' ''Mix'' [''Fix You''])
     = Inr ''Your playlist has been created! [Open Playlist](https://open.spotify.com/playlist/p1)''
   \<and> reported_url
       ''Your playlist has been created! [Open Playlist](https://open.spotify.com/playlist/p1)''
     = Some ''https://open.spotify.com/playlist/p1''
   \<and> parse_playlist_url ''https://open.spotify.com/playlist/p1'' = Some ''p1''
   \<and> spotify_user_playlist_create example_world (user_client example_world) ''alice'' ''Mix'' False
     = Inr ''p1''"
proof -
  have r: "snd (create_spotify_playlist example_world ''alice'' ''Mix'' [''Fix You''])
     = Inr ''Your playlist has been created! [Open Playlist](https://open.spotify.com/playlist/p1)''"
    by (simp add: create_spotify_playlist_def Let_def io_bind_def sp_call_def io_call_def
          io_return_def resolve_song_def example_world_def example_track_def confirmation_def
          playlist_url_def)
  have c: "spotify_user_playlist_create example_world (user_client example_world) ''alice'' ''Mix'' False
     = Inr ''p1''"
    by (simp add: example_world_def)
  show ?thesis
    using C8_playlist_url_round_trip [OF r] r c
    by (auto simp: playlist_url_def)
qed

subsection \<open>The agent variant when the tool finds no track\<close>

lemma split_no_recommendations:
  "split newline no_recommendations = [''No song recommendations found.'']"
  by (simp add: no_recommendations_def newline_def)

lemma song_recommendation_function_none:
  "spotify_search w (gen_sp self) query ''track'' 5 = Inr [] \<Longrightarrow>
   song_recommendation_function w self query =
     ([Spotify (gen_sp self) (Search query ''track'' 5)], Inr no_recommendations)"
  by (simp add: song_recommendation_function_def io_bind_def sp_call_def io_call_def io_return_def)

lemma generate_playlist_none:
  assumes "agent_chat w user_query = Inr refined_query"
    and "spotify_search w (gen_sp self) refined_query ''track'' 5 = Inr []"
  shows "generate_playlist w self user_query user_id =
     (case create_spotify_playlist w user_id ''Generated Playlist''
             [''No song recommendations found.''] of
        (t, r) \<Rightarrow>
          (AgentChat user_query # Spotify (gen_sp self) (Search refined_query ''track'' 5) # t, r))"
  using assms(1) song_recommendation_function_none [OF assms(2)]
  by (simp add: generate_playlist_def io_bind_def io_call_def split_no_recommendations
        split: prod.splits)

text \<open>
  The agent refines the request to a query the catalog knows no track for. The tool answers
  its one-line text, which is then the one candidate: a playlist is created, the text is
  searched as a title, and the run ends with the confirmation.
\<close>

theorem C1_counterexample:
  "spotify_search example_world (user_client example_world) ''unknown'' ''track'' 5 = Inr []
   \<and> generate_playlist example_world \<lparr>gen_sp = user_client example_world\<rparr>
       ''songs for a rainy day'' ''alice''
     = ([AgentChat ''songs for a rainy day'',
         Spotify (user_client example_world) (Search ''unknown'' ''track'' 5),
         Spotify (user_client example_world)
           (UserPlaylistCreate ''alice'' ''Generated Playlist'' False),
         Spotify (user_client example_world)
           (Search ''No song recommendations found.'' ''track'' 1),
         Spotify (user_client example_world)
           (PlaylistAddItems ''p1'' [''spotify:track:No song recommendations found.''])],
        Inr (confirmation ''p1''))"
proof -
  have a: "agent_chat example_world ''songs for a rainy day'' = Inr ''unknown''"
    by (simp add: example_world_def)
  have s: "spotify_search example_world (gen_sp \<lparr>gen_sp = user_client example_world\<rparr>)
             ''unknown'' ''track'' 5 = Inr []"
    by (simp add: example_world_def)
  have c: "create_spotify_playlist example_world ''alice'' ''Generated Playlist''
             [''No song recommendations found.'']
     = ([Spotify (user_client example_world)
           (UserPlaylistCreate ''alice'' ''Generated Playlist'' False),
         Spotify (user_client example_world)
           (Search ''No song recommendations found.'' ''track'' 1),
         Spotify (user_client example_world)
           (PlaylistAddItems ''p1'' [''spotify:track:No song recommendations found.''])],
        Inr (confirmation ''p1''))"
    by (simp add: create_spotify_playlist_def Let_def io_bind_def sp_call_def io_call_def
          io_return_def resolve_song_def example_world_def example_track_def)
  show ?thesis
    using s by (simp add: generate_playlist_none [OF a s] c)
qed

text \<open>
  Claim C1, as the code has it. When the agent answers and the search of the tool function
  finds no track, \<^verbatim>\<open>generate_playlist\<close> goes on to \<^verbatim>\<open>create_spotify_playlist\<close> with the one
  candidate \<^verbatim>\<open>No song recommendations found.\<close>, and the run asks the service for exactly
  one playlist, named \<^verbatim>\<open>Generated Playlist\<close>, for the given user.
\<close>

theorem C1_materializer_always_invoked:
  assumes "agent_chat w user_query = Inr refined_query"
    and "spotify_search w (gen_sp self) refined_query ''track'' 5 = Inr []"
  shows "generate_playlist w self user_query user_id =
           (case create_spotify_playlist w user_id ''Generated Playlist''
                   [''No song recommendations found.''] of
              (t, r) \<Rightarrow>
                (AgentChat user_query
                   # Spotify (gen_sp self) (Search refined_query ''track'' 5) # t, r))
         \<and> create_calls (fst (generate_playlist w self user_query user_id))
             = [(user_id, ''Generated Playlist'', False)]"
proof -
  obtain t r where eq:
    "create_spotify_playlist w user_id ''Generated Playlist'' [''No song recommendations found.'']
       = (t, r)"
    by fastforce
  have "create_calls t = [(user_id, ''Generated Playlist'', False)]"
    using create_calls_create_spotify_playlist
      [of w user_id "''Generated Playlist''" "[''No song recommendations found.'']"]
    by (simp add: eq)
  then show ?thesis
    by (simp add: generate_playlist_none [OF assms] eq)
qed

text \<open>The same for a generator on client credentials and another request.\<close>

theorem C1_witness:
  "create_calls (fst (generate_playlist example_world
                        \<lparr>gen_sp = SpotifyClientCredentials None None\<rparr> ''quiet evening'' ''bob''))
     = [(''bob'', ''Generated Playlist'', False)]"
proof -
  have a: "agent_chat example_world ''quiet evening'' = Inr ''unknown''"
    by (simp add: example_world_def)
  have s: "spotify_search example_world (gen_sp \<lparr>gen_sp = SpotifyClientCredentials None None\<rparr>)
             ''unknown'' ''track'' 5 = Inr []"
    by (simp add: example_world_def)
  show ?thesis
    using C1_materializer_always_invoked [OF a s, of "''bob''"] by (rule conjunct2)
qed

subsection \<open>Recommendations from a seed title\<close>

lemma recommend_similar_songs_raise:
  "spotify_search w (spotify w) song_title ''track'' 1 = Inl e \<Longrightarrow>
   recommend_similar_songs w song_title n =
     ([Spotify (spotify w) (Search song_title ''track'' 1),
       Ui (StError (''Error getting recommendations: '' @ error_text e))],
      Inr [''Error fetching recommendations.''])"
  by (simp add: recommend_similar_songs_def io_catch_def io_bind_def sp_call_def io_call_def
        io_return_def st_def)

lemma recommend_similar_songs_empty:
  "spotify_search w (spotify w) song_title ''track'' 1 = Inr (t # ts) \<Longrightarrow>
   spotify_recommendations w (spotify w) [track_id t] n = Inr [] \<Longrightarrow>
   recommend_similar_songs w song_title n =
     ([Spotify (spotify w) (Search song_title ''track'' 1),
       Spotify (spotify w) (Recommendations [track_id t] n)],
      Inr [])"
  by (simp add: recommend_similar_songs_def io_catch_def io_bind_def sp_call_def io_call_def
        io_return_def)

text \<open>
  The catalog knows the seed and the recommender returns no track: the answer is the
  empty list.
\<close>

theorem C6_counterexample:
  "spotify_recommendations example_world (spotify example_world) [''id-Yellow''] 5 = Inr []
   \<and> recommend_similar_songs example_world ''Yellow'' 5
     = ([Spotify (spotify example_world) (Search ''Yellow'' ''track'' 1),
         Spotify (spotify example_world) (Recommendations [''id-Yellow''] 5)],
        Inr [])"
  by (simp add: recommend_similar_songs_def io_catch_def io_bind_def sp_call_def io_call_def
        io_return_def example_world_def example_track_def)

text \<open>
  Claim C6, as the code has it. \<^verbatim>\<open>recommend_similar_songs\<close> answers the one entry
  \<^verbatim>\<open>No similar songs found.\<close> when the search for the seed title finds no track, and the one
  entry \<^verbatim>\<open>Error fetching recommendations.\<close> when that search raises; when the seed is found
  and the recommender returns no track, it answers the empty list.
\<close>

theorem C6_sentinel_only_for_unresolved_seed:
  "(spotify_search w (spotify w) song_title ''track'' 1 = Inr []
      \<longrightarrow> recommend_similar_songs w song_title n =
            ([Spotify (spotify w) (Search song_title ''track'' 1)],
             Inr [''No similar songs found.'']))
   \<and> (\<forall>t ts. spotify_search w (spotify w) song_title ''track'' 1 = Inr (t # ts)
          \<and> spotify_recommendations w (spotify w) [track_id t] n = Inr []
      \<longrightarrow> recommend_similar_songs w song_title n =
            ([Spotify (spotify w) (Search song_title ''track'' 1),
              Spotify (spotify w) (Recommendations [track_id t] n)],
             Inr []))
   \<and> (\<forall>e. spotify_search w (spotify w) song_title ''track'' 1 = Inl e
      \<longrightarrow> recommend_similar_songs w song_title n =
            ([Spotify (spotify w) (Search song_title ''track'' 1),
              Ui (StError (''Error getting recommendations: '' @ error_text e))],
             Inr [''Error fetching recommendations.'']))"
  using recommend_similar_songs_unresolved recommend_similar_songs_empty
    recommend_similar_songs_raise
  by blast

text \<open>A seed the catalog does not know, and one it knows.\<close>

theorem C6_witness:
  "recommend_similar_songs example_world ''unknown'' 3
     = ([Spotify (spotify example_world) (Search ''unknown'' ''track'' 1)],
        Inr [''No similar songs found.''])
   \<and> recommend_similar_songs example_world ''Fix You'' 3
     = ([Spotify (spotify example_world) (Search ''Fix You'' ''track'' 1),
         Spotify (spotify example_world) (Recommendations [''id-Fix You''] 3)],
        Inr [])"
proof -
  have u: "spotify_search example_world (spotify example_world) ''unknown'' ''track'' 1 = Inr []"
    by (simp add: example_world_def)
  have f: "spotify_search example_world (spotify example_world) ''Fix You'' ''track'' 1
             = Inr (example_track ''Fix You'' # [])"
    by (simp add: example_world_def)
  have r: "spotify_recommendations example_world (spotify example_world)
             [track_id (example_track ''Fix You'')] 3 = Inr []"
    by (simp add: example_world_def)
  have i: "track_id (example_track ''Fix You'') = ''id-Fix You''"
    by (simp add: example_track_def)
  show ?thesis
    using C6_sentinel_only_for_unresolved_seed [of example_world "''unknown''" 3]
      C6_sentinel_only_for_unresolved_seed [of example_world "''Fix You''" 3] u f r i
    by simp
qed

subsection \<open>The constructor of \<^verbatim>\<open>main2.py\<close>\<close>

text \<open>
  Claim C10. None of \<^verbatim>\<open>SpotifyClientCredentials\<close>, \<^verbatim>\<open>StorageContext\<close> and
  \<^verbatim>\<open>load_index_from_storage\<close> is bound in \<^verbatim>\<open>main2.py\<close>. Whatever its arguments and whatever the
  services would answer, \<^verbatim>\<open>__init__\<close> raises the \<^verbatim>\<open>NameError\<close> of the first before any event;
  \<^verbatim>\<open>load_index\<close> raises the one of the second; and the script ends with the constructor's
  \<^verbatim>\<open>NameError\<close> without an event, so without reaching \<^verbatim>\<open>generate_playlist\<close>.
\<close>

theorem C10_main2_constructor_raises_NameError:
  "''SpotifyClientCredentials'' \<notin> set main2_names
   \<and> ''StorageContext'' \<notin> set main2_names
   \<and> ''load_index_from_storage'' \<notin> set main2_names
   \<and> main2_init w data_path index_path = ([], Inl (NameError ''SpotifyClientCredentials''))
   \<and> load_index w index_path = ([], Inl (NameError ''StorageContext''))
   \<and> main2_script w = ([], Inl (NameError ''SpotifyClientCredentials''))"
  by (simp add: main2_names_def main2_init_def load_index_def main2_script_def lookup_name_def
        io_bind_def io_raise_def io_return_def)

subsection \<open>The keyword search\<close>

lemma fetch_playlist_data_request_exception:
  "requests_get w [(''q'', query)] = Inl (RequestException m) \<Longrightarrow>
   fetch_playlist_data w query =
     ([HttpGet serper_url [(''q'', query)] (serper_headers w) (Some 10),
       Ui (StError (''Error fetching data from Serper: '' @ m))],
      Inr (Some []))"
  by (simp add: fetch_playlist_data_def io_catch_def io_bind_def io_call_def io_return_def st_def)

lemma fetch_playlist_data_http_error:
  "requests_get w [(''q'', query)] = Inr response \<Longrightarrow>
   raise_for_status response = Inl (RequestException m) \<Longrightarrow>
   fetch_playlist_data w query =
     ([HttpGet serper_url [(''q'', query)] (serper_headers w) (Some 10),
       Ui (StError (''Error fetching data from Serper: '' @ m))],
      Inr (Some []))"
  by (simp add: fetch_playlist_data_def io_catch_def io_bind_def io_call_def io_return_def st_def)

lemma fetch_playlist_data_success:
  "requests_get w [(''q'', query)] = Inr response \<Longrightarrow>
   raise_for_status response = Inr () \<Longrightarrow>
   json_body response = Inr document \<Longrightarrow>
   fetch_playlist_data w query =
     ([HttpGet serper_url [(''q'', query)] (serper_headers w) (Some 10)], Inr document)"
  by (simp add: fetch_playlist_data_def io_catch_def io_bind_def io_call_def io_return_def)

lemma create_playlist_after_error:
  "fetch_playlist_data w query = (t, Inr (Some [])) \<Longrightarrow>
   create_playlist w query = (t, Inr (MessageAndSongs ''No songs found.'' []))"
  by (simp add: create_playlist_def io_bind_def io_return_def titles_def)

lemma create_playlist_success:
  "fetch_playlist_data w query = (t, Inr document) \<Longrightarrow>
   titles (get_organic document) \<noteq> [] \<Longrightarrow>
   create_playlist w query = (t, Inr (SongList (titles (get_organic document))))"
  by (simp add: create_playlist_def io_bind_def io_return_def)

lemma titles_in_result_order:
  "titles rs = map (\<lambda>result. the (map_of result ''title''))
                 (filter (\<lambda>result. map_of result ''title'' \<noteq> None) rs)"
  by (induction rs) (auto simp: titles_def split: option.splits)

lemma show_nat_500: "show_nat 500 = ''500''"
  by (simp add: digits_def)

lemma example_world_http_error:
  "raise_for_status \<lparr>status_code = 500, reason = ''Internal Server Error'',
                     url = serper_url, json_body = Inr None\<rparr>
     = Inl (RequestException
              ''500 Server Error: Internal Server Error for url: https://google.serper.dev/search'')"
  by (simp add: raise_for_status_def show_nat_500 serper_url_def del: show_nat.simps)

text \<open>
  Claim C5, at a request the search API answers with status 500. \<^verbatim>\<open>fetch_playlist_data\<close>
  reports the error and returns a document without results, but \<^verbatim>\<open>create_playlist\<close> then
  returns the pair of a message and an empty list, not an empty list: the pair counts as
  true in \<^verbatim>\<open>main\<close>, its first component is taken for the first song, and the run goes on
  to search the catalog for \<^verbatim>\<open>No songs found.\<close> and to ask for recommendations.
\<close>

theorem C5_error_returns_message_pair:
  "create_playlist example_world ''relaxing music for studying''
     = ([HttpGet serper_url [(''q'', ''relaxing music for studying'')]
           (serper_headers example_world) (Some 10),
         Ui (StError (''Error fetching data from Serper: '' @
           ''500 Server Error: Internal Server Error for url: https://google.serper.dev/search''))],
        Inr (MessageAndSongs ''No songs found.'' []))
   \<and> truthy (MessageAndSongs ''No songs found.'' [])
   \<and> first_item (MessageAndSongs ''No songs found.'' []) = Inr ''No songs found.''
   \<and> app_main example_world ''relaxing music for studying'' 5
     = ([Ui (StTitle ''ChordCloud's Personalized Playlist Recommender''),
         HttpGet serper_url [(''q'', ''relaxing music for studying'')]
           (serper_headers example_world) (Some 10),
         Ui (StError (''Error fetching data from Serper: '' @
           ''500 Server Error: Internal Server Error for url: https://google.serper.dev/search'')),
         Spotify (spotify example_world) (Search ''No songs found.'' ''track'' 1),
         Spotify (spotify example_world) (Recommendations [''id-No songs found.''] 5),
         Ui (StSubheader ''Recommended Songs:'')],
        Inr ())"
proof -
  have g: "requests_get example_world [(''q'', ''relaxing music for studying'')]
             = Inr \<lparr>status_code = 500, reason = ''Internal Server Error'',
                     url = serper_url, json_body = Inr None\<rparr>"
    by (simp add: example_world_def)
  note f = fetch_playlist_data_http_error [OF g example_world_http_error]
  note c = create_playlist_after_error [OF f]
  have s: "spotify_search example_world (spotify example_world) ''No songs found.'' ''track'' 1
             = Inr (example_track ''No songs found.'' # [])"
    by (simp add: example_world_def)
  have r: "spotify_recommendations example_world (spotify example_world)
             [track_id (example_track ''No songs found.'')] 5 = Inr []"
    by (simp add: example_world_def)
  have i: "track_id (example_track ''No songs found.'') = ''id-No songs found.''"
    by (simp add: example_track_def)
  note d = recommend_similar_songs_empty [OF s r, unfolded i]
  have m: "app_main example_world ''relaxing music for studying'' 5
     = ([Ui (StTitle ''ChordCloud's Personalized Playlist Recommender''),
         HttpGet serper_url [(''q'', ''relaxing music for studying'')]
           (serper_headers example_world) (Some 10),
         Ui (StError (''Error fetching data from Serper: '' @
           ''500 Server Error: Internal Server Error for url: https://google.serper.dev/search'')),
         Spotify (spotify example_world) (Search ''No songs found.'' ''track'' 1),
         Spotify (spotify example_world) (Recommendations [''id-No songs found.''] 5),
         Ui (StSubheader ''Recommended Songs:'')],
        Inr ())"
    by (simp add: app_main_def c d io_bind_def st_def io_call_def io_return_def)
  show ?thesis
    using c m by simp
qed

subsection \<open>Timeouts\<close>

lemma all_events_fetch_playlist_data:
  assumes "P (HttpGet serper_url [(''q'', query)] (serper_headers w) (Some 10))"
    and "\<And>u. P (Ui u)"
  shows "all_events P (fetch_playlist_data w query)"
  unfolding fetch_playlist_data_def st_def
  by (intro all_events_catch all_events_bind all_events_call all_events_pure
        all_events_return assms)

lemma all_events_create_playlist:
  assumes "P (HttpGet serper_url [(''q'', query)] (serper_headers w) (Some 10))"
    and "\<And>u. P (Ui u)"
  shows "all_events P (create_playlist w query)"
  unfolding create_playlist_def
  by (intro all_events_bind all_events_fetch_playlist_data assms)
     (simp add: Let_def all_events_return)

lemma all_events_recommend_similar_songs:
  assumes "\<And>req. P (Spotify (spotify w) req)"
    and "\<And>u. P (Ui u)"
  shows "all_events P (recommend_similar_songs w song_title n)"
  unfolding recommend_similar_songs_def st_def sp_call_def
  by (intro all_events_catch all_events_bind all_events_call all_events_return assms)
     (simp add: all_events_return all_events_bind all_events_call all_events_pure assms
        split: list.splits)

lemma list_all_write_songs: "(\<And>u. P (Ui u)) \<Longrightarrow> list_all P (write_songs i songs)"
  by (induction songs arbitrary: i) simp_all

lemma all_events_st: "(\<And>u. P (Ui u)) \<Longrightarrow> all_events P (st v)"
  by (simp add: st_def all_events_call)

lemma all_events_if:
  "all_events P a \<Longrightarrow> all_events P b \<Longrightarrow> all_events P (if c then a else b)"
  by simp

lemma all_events_write_songs:
  "(\<And>u. P (Ui u)) \<Longrightarrow> all_events P (write_songs i songs, r)"
  by (simp add: all_events_def list_all_write_songs)

lemma all_events_app_main:
  assumes "P (HttpGet serper_url [(''q'', user_query)] (serper_headers w) (Some 10))"
    and "\<And>req. P (Spotify (spotify w) req)"
    and "\<And>u. P (Ui u)"
  shows "all_events P (app_main w user_query n)"
  unfolding app_main_def
  by (intro all_events_bind all_events_if all_events_st all_events_return all_events_pure
        all_events_create_playlist all_events_recommend_similar_songs all_events_write_songs
        assms)

lemma all_events_app3_main:
  assumes "\<And>ev. timeout_of ev = None \<Longrightarrow> P ev"
  shows "all_events P (app3_main w clicked user_query user_id)"
proof -
  have ui: "all_events P (st v)" for v
    by (rule all_events_st) (simp add: assms)
  have init: "all_events P (app3_init w data_path)" for data_path
    unfolding app3_init_def create_index_def
    by (intro all_events_bind all_events_if all_events_call all_events_return
          all_events_raise assms)
       simp_all
  have gen: "all_events P (generate_playlist w self user_query user_id)" for self
    by (rule all_events_generate_playlist) (simp_all add: assms)
  show ?thesis
    unfolding app3_main_def
    by (intro all_events_bind all_events_if all_events_catch all_events_return ui init gen)
qed

text \<open>
  Claim C9. The first event of \<^verbatim>\<open>fetch_playlist_data\<close> is the search request, with the
  timeout 10. In a run of \<^verbatim>\<open>main\<close> of \<^verbatim>\<open>app.py\<close> every event other than that request
  carries no timeout; no event of \<^verbatim>\<open>recommend_similar_songs\<close>, \<^verbatim>\<open>create_spotify_playlist\<close>,
  \<^verbatim>\<open>generate_playlist\<close> or \<^verbatim>\<open>main\<close> of \<^verbatim>\<open>app3.py\<close> carries one.
\<close>

theorem C9_only_keyword_search_has_timeout:
  "(\<exists>rest. fst (fetch_playlist_data w query)
       = HttpGet serper_url [(''q'', query)] (serper_headers w) (Some 10) # rest)
   \<and> all_events
       (\<lambda>ev. timeout_of ev = None
            \<or> ev = HttpGet serper_url [(''q'', query)] (serper_headers w) (Some 10))
       (app_main w query n)
   \<and> all_events (\<lambda>ev. timeout_of ev = None) (recommend_similar_songs w song_title n)
   \<and> all_events (\<lambda>ev. timeout_of ev = None)
       (create_spotify_playlist w user_id playlist_name song_list)
   \<and> all_events (\<lambda>ev. timeout_of ev = None) (generate_playlist w self user_query user_id)
   \<and> all_events (\<lambda>ev. timeout_of ev = None) (app3_main w clicked user_query user_id)"
proof -
  have first: "\<exists>rest. fst (fetch_playlist_data w query)
       = HttpGet serper_url [(''q'', query)] (serper_headers w) (Some 10) # rest"
    by (simp add: fetch_playlist_data_def io_catch_def io_bind_def io_call_def io_return_def
          st_def split: sum.splits prod.splits)
  have app: "all_events
       (\<lambda>ev. timeout_of ev = None
            \<or> ev = HttpGet serper_url [(''q'', query)] (serper_headers w) (Some 10))
       (app_main w query n)"
    by (rule all_events_app_main) simp_all
  have rec: "all_events (\<lambda>ev. timeout_of ev = None) (recommend_similar_songs w song_title n)"
    by (rule all_events_recommend_similar_songs) simp_all
  have mat: "all_events (\<lambda>ev. timeout_of ev = None)
       (create_spotify_playlist w user_id playlist_name song_list)"
    by (rule all_events_create_spotify_playlist) simp_all
  have gen: "all_events (\<lambda>ev. timeout_of ev = None)
       (generate_playlist w self user_query user_id)"
    by (rule all_events_generate_playlist) simp_all
  have app3: "all_events (\<lambda>ev. timeout_of ev = None)
       (app3_main w clicked user_query user_id)"
    by (rule all_events_app3_main) simp
  show ?thesis
    using first app rec mat gen app3 by blast
qed

text \<open>The request and the error report of a failed search, and a whole run of \<^verbatim>\<open>main\<close>.\<close>

theorem C9_witness:
  "map timeout_of (fst (fetch_playlist_data example_world ''rain''))
     = [Some 10, None]
   \<and> all_events
       (\<lambda>ev. timeout_of ev = None
            \<or> ev = HttpGet serper_url [(''q'', ''rain'')] (serper_headers example_world) (Some 10))
       (app_main example_world ''rain'' 2)"
proof -
  have g: "requests_get example_world [(''q'', ''rain'')]
             = Inr \<lparr>status_code = 500, reason = ''Internal Server Error'',
                     url = serper_url, json_body = Inr None\<rparr>"
    by (simp add: example_world_def)
  note f = fetch_playlist_data_http_error [OF g example_world_http_error]
  show ?thesis
    using C9_only_keyword_search_has_timeout [of example_world "''rain''" 2]
    by (simp add: f)
qed

end
